theory Spec2Isabelle
  imports Complex_Main
begin

section \<open>JavaScript numbers and loosely typed values\<close>

text \<open>
  A JavaScript number is either finite or one of the three special values. Finite numbers
  are modelled by exact reals: the rounding error and the overflow of IEEE doubles are
  not part of this model, and negative zero is identified with zero. The special values
  follow the IEEE rules that the arithmetic operators of the language implement.
\<close>

datatype jsnum = Fin real | NaN | PosInf | NegInf

text \<open>
  A field read from a loosely typed object: \<open>undefined\<close>, \<open>null\<close> or a number.
  String-valued fields are outside this model.
\<close>

datatype jsval = Undefined | Null | Number jsnum

fun isFinite :: "jsnum \<Rightarrow> bool" where
  "isFinite (Fin _) = True"
| "isFinite _ = False"

fun js_neg :: "jsnum \<Rightarrow> jsnum" where
  "js_neg (Fin a) = Fin (- a)"
| "js_neg NaN = NaN"
| "js_neg PosInf = NegInf"
| "js_neg NegInf = PosInf"

fun js_add :: "jsnum \<Rightarrow> jsnum \<Rightarrow> jsnum" where
  "js_add (Fin a) (Fin b) = Fin (a + b)"
| "js_add NaN _ = NaN"
| "js_add _ NaN = NaN"
| "js_add PosInf NegInf = NaN"
| "js_add NegInf PosInf = NaN"
| "js_add PosInf _ = PosInf"
| "js_add _ PosInf = PosInf"
| "js_add NegInf _ = NegInf"
| "js_add _ NegInf = NegInf"

definition js_sub :: "jsnum \<Rightarrow> jsnum \<Rightarrow> jsnum" where
  "js_sub a b = js_add a (js_neg b)"

text \<open>The sign of an infinite product or quotient: \<open>pos\<close> tells whether it is positive.\<close>

definition signed_inf :: "bool \<Rightarrow> jsnum" where
  "signed_inf pos = (if pos then PosInf else NegInf)"

fun js_mul :: "jsnum \<Rightarrow> jsnum \<Rightarrow> jsnum" where
  "js_mul (Fin a) (Fin b) = Fin (a * b)"
| "js_mul NaN _ = NaN"
| "js_mul _ NaN = NaN"
| "js_mul (Fin a) PosInf = (if a = 0 then NaN else signed_inf (0 < a))"
| "js_mul (Fin a) NegInf = (if a = 0 then NaN else signed_inf (a < 0))"
| "js_mul PosInf (Fin b) = (if b = 0 then NaN else signed_inf (0 < b))"
| "js_mul NegInf (Fin b) = (if b = 0 then NaN else signed_inf (b < 0))"
| "js_mul PosInf PosInf = PosInf"
| "js_mul PosInf NegInf = NegInf"
| "js_mul NegInf PosInf = NegInf"
| "js_mul NegInf NegInf = PosInf"

text \<open>Division; a zero divisor is the positive zero.\<close>

fun js_div :: "jsnum \<Rightarrow> jsnum \<Rightarrow> jsnum" where
  "js_div (Fin a) (Fin b) =
     (if b \<noteq> 0 then Fin (a / b) else if a = 0 then NaN else signed_inf (0 < a))"
| "js_div NaN _ = NaN"
| "js_div _ NaN = NaN"
| "js_div (Fin a) PosInf = Fin 0"
| "js_div (Fin a) NegInf = Fin 0"
| "js_div PosInf (Fin b) = signed_inf (0 \<le> b)"
| "js_div NegInf (Fin b) = signed_inf (b < 0)"
| "js_div PosInf PosInf = NaN"
| "js_div PosInf NegInf = NaN"
| "js_div NegInf PosInf = NaN"
| "js_div NegInf NegInf = NaN"

text \<open>The comparison \<open>a < b\<close>: false as soon as one side is NaN.\<close>

fun js_less :: "jsnum \<Rightarrow> jsnum \<Rightarrow> bool" where
  "js_less (Fin a) (Fin b) = (a < b)"
| "js_less NaN _ = False"
| "js_less _ NaN = False"
| "js_less NegInf NegInf = False"
| "js_less NegInf _ = True"
| "js_less _ NegInf = False"
| "js_less PosInf _ = False"
| "js_less _ PosInf = True"

text \<open>Strict equality \<open>===\<close> of two numbers: NaN is not equal to itself.\<close>

definition js_eq :: "jsnum \<Rightarrow> jsnum \<Rightarrow> bool" where
  "js_eq a b = (a \<noteq> NaN \<and> a = b)"

text \<open>\<open>Math.max\<close> and \<open>Math.min\<close> of two arguments.\<close>

definition Math_max :: "jsnum \<Rightarrow> jsnum \<Rightarrow> jsnum" where
  "Math_max a b = (if a = NaN \<or> b = NaN then NaN else if js_less a b then b else a)"

definition Math_min :: "jsnum \<Rightarrow> jsnum \<Rightarrow> jsnum" where
  "Math_min a b = (if a = NaN \<or> b = NaN then NaN else if js_less b a then b else a)"

fun Math_floor :: "jsnum \<Rightarrow> jsnum" where
  "Math_floor (Fin a) = Fin (of_int \<lfloor>a\<rfloor>)"
| "Math_floor x = x"

text \<open>\<open>Math.round\<close> rounds to the nearest integer, a half towards plus infinity.\<close>

fun Math_round :: "jsnum \<Rightarrow> jsnum" where
  "Math_round (Fin a) = Fin (of_int \<lfloor>a + 1 / 2\<rfloor>)"
| "Math_round x = x"

text \<open>\<open>Number(v)\<close>.\<close>

fun toNumber :: "jsval \<Rightarrow> jsnum" where
  "toNumber Undefined = NaN"
| "toNumber Null = Fin 0"
| "toNumber (Number n) = n"

text \<open>\<open>v ?? d\<close>.\<close>

fun nullish :: "jsval \<Rightarrow> jsval \<Rightarrow> jsval" where
  "nullish Undefined d = d"
| "nullish Null d = d"
| "nullish (Number n) d = Number n"

text \<open>\<open>v == null\<close>.\<close>

fun is_null :: "jsval \<Rightarrow> bool" where
  "is_null (Number n) = False"
| "is_null _ = True"

text \<open>Truthiness of a value that is a number, \<open>null\<close> or \<open>undefined\<close>.\<close>

fun truthy :: "jsval \<Rightarrow> bool" where
  "truthy (Number (Fin a)) = (a \<noteq> 0)"
| "truthy (Number NaN) = False"
| "truthy (Number _) = True"
| "truthy _ = False"

section \<open>The admin draft calculator\<close>

text \<open>
  \<^verbatim>\<open>function asNumber(v: unknown, fallback = 0) {
    const n = typeof v === "number" ? v : Number(v);
    return Number.isFinite(n) ? n : fallback; }\<close>
\<close>

definition asNumber :: "jsval \<Rightarrow> jsnum \<Rightarrow> jsnum" where
  "asNumber v fallback =
     (let n = (case v of Number x \<Rightarrow> x | _ \<Rightarrow> toNumber v)
      in if isFinite n then n else fallback)"

datatype WebsitePlanKey = website_only | blog_social | full_digital

datatype base_mode_t = monthly | yearly

record WebsitePlanDurationDraft =
  discount_percent :: jsval
  manual_price_per_year :: jsval
  is_manual_locked :: bool

text \<open>The \<open>durations\<close> object maps a number of years to the configuration of that duration.\<close>

record WebsitePlanPricingDraft =
  key :: WebsitePlanKey
  label :: string
  base_mode :: base_mode_t
  base_price :: jsval
  durations :: "real \<rightharpoonup> WebsitePlanDurationDraft"

definition computeAnnualBase :: "WebsitePlanPricingDraft \<Rightarrow> jsnum" where
  "computeAnnualBase draft =
     (let base = Math_max (Fin 0) (Math_floor (asNumber (base_price draft) (Fin 0)))
      in if base_mode draft = monthly then js_mul base (Fin 12) else base)"

text \<open>\<open>draft.durations?.[years]?.discount_percent\<close> is \<open>undefined\<close> where the entry is missing.\<close>

definition computeAutoPricePerYear :: "WebsitePlanPricingDraft \<Rightarrow> real \<Rightarrow> jsnum" where
  "computeAutoPricePerYear draft years =
     (let annualBase = computeAnnualBase draft;
          discount = Math_min (Fin 100) (Math_max (Fin 0)
            (asNumber (case durations draft years of None \<Rightarrow> Undefined
                       | Some d \<Rightarrow> discount_percent d) (Fin 0)))
      in Math_round (js_mul annualBase (js_sub (Fin 1) (js_div discount (Fin 100)))))"

text \<open>
  The row that the admin screen renders for one plan and one duration. Reading a field
  of a missing entry \<open>draft.durations[years]\<close> throws a TypeError: the result is
  \<open>None\<close> there.
\<close>

definition shownPricePerYear :: "WebsitePlanPricingDraft \<Rightarrow> real \<Rightarrow> jsnum option" where
  "shownPricePerYear draft years =
     (case durations draft years of None \<Rightarrow> None
      | Some d \<Rightarrow>
          (let autoPricePerYear = computeAutoPricePerYear draft years
           in Some (if is_manual_locked d
                    then asNumber (nullish (manual_price_per_year d) (Number autoPricePerYear))
                           autoPricePerYear
                    else autoPricePerYear)))"

definition totalForDuration :: "WebsitePlanPricingDraft \<Rightarrow> real \<Rightarrow> jsnum option" where
  "totalForDuration draft years =
     map_option (\<lambda>shown. Math_round (js_mul shown (Fin years))) (shownPricePerYear draft years)"

text \<open>
  The state update of the manual switch, for the plan \<open>current\<close> and the duration
  \<open>years\<close>. With the entry missing, switching on reads a field of \<open>undefined\<close> and
  throws (\<open>None\<close>); switching off spreads \<open>undefined\<close> and stores an entry without a
  discount.
\<close>

definition onCheckedChange ::
  "WebsitePlanPricingDraft \<Rightarrow> real \<Rightarrow> bool \<Rightarrow> WebsitePlanPricingDraft option" where
  "onCheckedChange current years v =
     (let nextLocked = v in
      case durations current years of
        None \<Rightarrow>
          if nextLocked then None
          else Some (current\<lparr>durations := (durations current)(years \<mapsto>
                 \<lparr>discount_percent = Undefined, manual_price_per_year = Null,
                  is_manual_locked = nextLocked\<rparr>)\<rparr>)
      | Some currentDur \<Rightarrow>
          (let nextManual =
                 (if nextLocked
                  then Number (asNumber (nullish (manual_price_per_year currentDur)
                                 (Number (computeAutoPricePerYear current years))) (Fin 0))
                  else Null)
           in Some (current\<lparr>durations := (durations current)(years \<mapsto>
                 currentDur\<lparr>is_manual_locked := nextLocked,
                            manual_price_per_year := nextManual\<rparr>)\<rparr>)))"

section \<open>The checkout total\<close>

text \<open>
  A row of the duration and discount configuration of a package, as fetched. The flag
  is \<open>None\<close> where the field is absent or \<open>null\<close>.
\<close>

record duration_row =
  duration_months :: jsval
  row_discount_percent :: jsval
  row_is_active :: "bool option"

text \<open>
  A JavaScript \<open>Map\<close> from numbers to numbers, in insertion order. \<open>Map_set\<close>
  replaces the value of a key that is present and appends a new key otherwise. Only
  finite positive keys are stored below, on which the key equality of \<open>Map\<close> is
  equality.
\<close>

type_synonym number_map = "(jsnum \<times> jsnum) list"

fun Map_set :: "jsnum \<Rightarrow> jsnum \<Rightarrow> number_map \<Rightarrow> number_map" where
  "Map_set k v [] = [(k, v)]"
| "Map_set k v ((k', v') # m) = (if k' = k then (k, v) # m else (k', v') # Map_set k v m)"

fun Map_get :: "number_map \<Rightarrow> jsnum \<Rightarrow> jsnum option" where
  "Map_get [] k = None"
| "Map_get ((k', v') # m) k = (if k' = k then Some v' else Map_get m k)"

definition Map_size :: "number_map \<Rightarrow> nat" where
  "Map_size m = length m"

text \<open>
  One turn of the loop that builds \<open>discountByMonths\<close>:
  \<^verbatim>\<open>if (r?.is_active === false) continue;
  const months = Number((r as any).duration_months ?? 0);
  const discount = Number((r as any).discount_percent ?? 0);
  if (Number.isFinite(months) && months > 0) m.set(months, discount);\<close>
\<close>

definition discountByMonths_step :: "duration_row \<Rightarrow> number_map \<Rightarrow> number_map" where
  "discountByMonths_step r m =
     (if row_is_active r = Some False then m
      else
        (let months = toNumber (nullish (duration_months r) (Number (Fin 0)));
             discount = toNumber (nullish (row_discount_percent r) (Number (Fin 0)))
         in if isFinite months \<and> js_less (Fin 0) months then Map_set months discount m
            else m))"

definition discountByMonths :: "duration_row list \<Rightarrow> number_map" where
  "discountByMonths durationRows = fold discountByMonths_step durationRows []"

text \<open>A row of the legacy subscription plans of the public settings.\<close>

record plan_row =
  plan_years :: jsval
  plan_label :: string
  price_usd :: jsval
  plan_is_active :: bool
  plan_sort_order :: jsval

text \<open>
  \<^verbatim>\<open>(subscriptionPlans || []).find((p) => Number(p?.years) === Number(state.subscriptionYears))\<close>
\<close>

definition selectedPlan :: "plan_row list \<Rightarrow> jsval \<Rightarrow> plan_row option" where
  "selectedPlan subscriptionPlans subscriptionYears =
     find (\<lambda>p. js_eq (toNumber (plan_years p)) (toNumber subscriptionYears)) subscriptionPlans"

text \<open>The price of the selected plan when it is a finite number, \<open>null\<close> otherwise.\<close>

definition planOverrideUsd :: "plan_row list \<Rightarrow> jsval \<Rightarrow> jsnum option" where
  "planOverrideUsd subscriptionPlans subscriptionYears =
     (let v = toNumber (case selectedPlan subscriptionPlans subscriptionYears of
                          None \<Rightarrow> Undefined | Some p \<Rightarrow> price_usd p)
      in if isFinite v then Some v else None)"

text \<open>
  The total before the promo code. \<open>None\<close> is the \<open>null\<close> of the source. The helper
  \<open>computeDiscountedTotal\<close> is imported from a module that is not part of the sources at
  hand: it is the parameter \<open>cdt\<close>, applied to the monthly price, the months and the
  discount percent.
\<close>

definition baseTotalUsd ::
  "(jsnum \<Rightarrow> jsnum \<Rightarrow> jsnum \<Rightarrow> jsnum) \<Rightarrow> jsval \<Rightarrow> number_map \<Rightarrow> jsval \<Rightarrow> jsval \<Rightarrow>
   plan_row list \<Rightarrow> jsnum \<Rightarrow> jsnum option" where
  "baseTotalUsd cdt subscriptionYears discountByMonths_m domainPriceUsd packagePriceUsd
     subscriptionPlans addOnsTotal =
     (if \<not> truthy subscriptionYears then None
      else
        (let months = js_mul (toNumber subscriptionYears) (Fin 12);
             discountPercent = (case Map_get discountByMonths_m months of
                                  None \<Rightarrow> Fin 0 | Some d \<Rightarrow> d)
         in if 0 < Map_size discountByMonths_m then
              (let domain = nullish domainPriceUsd Null; pkg = nullish packagePriceUsd Null
               in if is_null domain \<or> is_null pkg then None
                  else
                    (let baseAnnual = js_add (toNumber domain) (toNumber pkg);
                         monthly_p = js_div baseAnnual (Fin 12)
                     in Some (js_add (cdt monthly_p months discountPercent) addOnsTotal)))
            else
              (case planOverrideUsd subscriptionPlans subscriptionYears of
                 Some v \<Rightarrow> Some (js_add v addOnsTotal)
               | None \<Rightarrow>
                   (let domainUsd = nullish domainPriceUsd Null;
                        pkgUsd = nullish packagePriceUsd Null
                    in if is_null domainUsd \<or> is_null pkgUsd then None
                       else Some (js_add (js_mul (js_add (toNumber domainUsd) (toNumber pkgUsd))
                                            (toNumber subscriptionYears)) addOnsTotal)))))"

text \<open>
  Modelled from the spec: \<open>computeDiscountedTotal\<close> of the module
  \<open>lib/packageDurations\<close>, which is not part of the sources at hand. The spec describes
  it as the standard monthly discounted total, a linear discount applied uniformly per
  month and summed over the months, and requires every discount percent to be clamped
  into the range from 0 to 100 before use.
\<close>

definition computeDiscountedTotal :: "jsnum \<Rightarrow> jsnum \<Rightarrow> jsnum \<Rightarrow> jsnum" where
  "computeDiscountedTotal monthlyPrice months discountPercent =
     (let discount = Math_min (Fin 100) (Math_max (Fin 0) discountPercent)
      in js_mul (js_mul monthlyPrice (js_sub (Fin 1) (js_div discount (Fin 100)))) months)"

text \<open>
  \<^verbatim>\<open>const d = state.appliedPromo?.discountUsd ?? 0;
  const discount = Number.isFinite(d) && d > 0 ? d : 0;
  return Math.max(0, baseTotalUsd - discount);\<close>
\<close>

definition totalAfterPromoUsd :: "jsnum option \<Rightarrow> jsval \<Rightarrow> jsnum option" where
  "totalAfterPromoUsd baseTotal discountUsd =
     (case baseTotal of None \<Rightarrow> None
      | Some b \<Rightarrow>
          (let d = toNumber (nullish discountUsd (Number (Fin 0)));
               discount = (if isFinite d \<and> js_less (Fin 0) d then d else Fin 0)
           in Some (Math_max (Fin 0) (js_sub b discount))))"

definition totalAfterPromoIdr :: "jsnum option \<Rightarrow> jsnum option" where
  "totalAfterPromoIdr totalAfterPromo =
     (case totalAfterPromo of None \<Rightarrow> None
      | Some t \<Rightarrow> Some (Math_max (Fin 0) (Math_round t)))"

section \<open>The add-on totals\<close>

record SubscriptionAddOn =
  addon_id :: string
  price_idr :: jsval
  addon_is_active :: bool
  addon_sort_order :: jsval

text \<open>
  The own property names of \<open>Object.prototype\<close>. Every plain object inherits them, and
  the value read under each of them is truthy (a function, or the prototype itself under
  \<open>__proto__\<close>).
\<close>

definition Object_prototype_keys :: "string list" where
  "Object_prototype_keys =
     [''constructor'', ''__defineGetter__'', ''__defineSetter__'', ''hasOwnProperty'',
      ''__lookupGetter__'', ''__lookupSetter__'', ''isPrototypeOf'', ''propertyIsEnumerable'',
      ''toString'', ''valueOf'', ''__proto__'', ''toLocaleString'']"

text \<open>
  The truthiness of the property read \<open>selected?.[id]\<close>. The selection is \<open>None\<close>
  where it is \<open>undefined\<close> or \<open>null\<close>, and otherwise a plain object given by its own
  properties, which are booleans. An own property decides; without one the read walks
  the prototype chain and finds the inherited properties.
\<close>

definition selected_truthy :: "(string \<rightharpoonup> bool) option \<Rightarrow> string \<Rightarrow> bool" where
  "selected_truthy selected k =
     (case selected of
        None \<Rightarrow> False
      | Some own \<Rightarrow>
          (case own k of Some b \<Rightarrow> b | None \<Rightarrow> k \<in> set Object_prototype_keys))"

text \<open>
  The total of the hook \<open>useSubscriptionAddOns\<close> over the fetched \<open>items\<close>.
  \<^verbatim>\<open>if (!items.length) return 0;
  return items.reduce((sum, a) => {
    if (!selected?.[a.id]) return sum;
    return sum + Number(a.price_idr ?? 0); }, 0);\<close>
\<close>

definition subscriptionAddOnsTotal ::
  "SubscriptionAddOn list \<Rightarrow> (string \<rightharpoonup> bool) option \<Rightarrow> jsnum" where
  "subscriptionAddOnsTotal items selected =
     (if length items = 0 then Fin 0
      else foldl (\<lambda>sum a.
             if \<not> selected_truthy selected (addon_id a) then sum
             else js_add sum (toNumber (nullish (price_idr a) (Number (Fin 0)))))
           (Fin 0) items)"

text \<open>
  \<^verbatim>\<open>const addOnsTotal = packageAddOnsTotal + subscriptionAddOnsTotal;\<close>
  The package-scoped total comes from a hook that is not part of the sources at hand.
\<close>

definition addOnsTotal :: "jsnum \<Rightarrow> jsnum \<Rightarrow> jsnum" where
  "addOnsTotal packageAddOnsTotal subscriptionAddOnsTotal_v =
     js_add packageAddOnsTotal subscriptionAddOnsTotal_v"

section \<open>Rows in effect and sample data\<close>

text \<open>
  The month count that the loop of \<open>discountByMonths\<close> reads from a row, and the rows
  that the loop stores: those not flagged inactive whose month count is finite and
  positive.
\<close>

definition row_months :: "duration_row \<Rightarrow> jsnum" where
  "row_months r = toNumber (nullish (duration_months r) (Number (Fin 0)))"

definition row_in_effect :: "duration_row \<Rightarrow> bool" where
  "row_in_effect r =
     (row_is_active r \<noteq> Some False \<and> isFinite (row_months r) \<and> js_less (Fin 0) (row_months r))"

text \<open>Concrete values for the examples below.\<close>

definition sample_draft :: "jsval \<Rightarrow> base_mode_t \<Rightarrow> jsval \<Rightarrow> WebsitePlanPricingDraft" where
  "sample_draft price m disc =
     \<lparr>key = website_only, label = ''Website Only'', base_mode = m, base_price = price,
      durations = [2 \<mapsto> \<lparr>discount_percent = disc, manual_price_per_year = Null,
                           is_manual_locked = False\<rparr>]\<rparr>"

definition sample_row :: "real \<Rightarrow> real \<Rightarrow> bool option \<Rightarrow> duration_row" where
  "sample_row months disc act =
     \<lparr>duration_months = Number (Fin months), row_discount_percent = Number (Fin disc),
      row_is_active = act\<rparr>"

definition sample_plan :: "real \<Rightarrow> real \<Rightarrow> bool \<Rightarrow> plan_row" where
  "sample_plan y price act =
     \<lparr>plan_years = Number (Fin y), plan_label = ''Plan'', price_usd = Number (Fin price),
      plan_is_active = act, plan_sort_order = Number (Fin 0)\<rparr>"

definition sample_addon :: "string \<Rightarrow> real \<Rightarrow> SubscriptionAddOn" where
  "sample_addon i p =
     \<lparr>addon_id = i, price_idr = Number (Fin p), addon_is_active = True,
      addon_sort_order = Number (Fin 0)\<rparr>"

lemmas checkout_eval = sample_row_def sample_plan_def sample_addon_def sample_draft_def
  discountByMonths_def discountByMonths_step_def Map_size_def baseTotalUsd_def
  selectedPlan_def planOverrideUsd_def js_eq_def computeDiscountedTotal_def
  Math_max_def Math_min_def js_sub_def Let_def

lemmas admin_eval = sample_draft_def totalForDuration_def shownPricePerYear_def
  computeAutoPricePerYear_def computeAnnualBase_def asNumber_def Math_max_def Math_min_def
  js_sub_def Let_def

section \<open>Facts about the number operations\<close>

lemma Math_max_Fin: "Math_max (Fin a) (Fin b) = Fin (max a b)"
  by (simp add: Math_max_def max_def)

lemma Math_min_Fin: "Math_min (Fin a) (Fin b) = Fin (min a b)"
  by (simp add: Math_min_def min_def)

lemma max_zero_floor:
  "Math_max (Fin 0) (Math_floor (Fin b)) = Fin (if 0 \<le> b then of_int \<lfloor>b\<rfloor> else 0)"
proof (cases "0 \<le> b")
  case True
  then have "0 \<le> \<lfloor>b\<rfloor>" by simp
  then have "(0::real) \<le> of_int \<lfloor>b\<rfloor>" by (rule iffD2 [OF of_int_0_le_iff])
  then have "max 0 (real_of_int \<lfloor>b\<rfloor>) = of_int \<lfloor>b\<rfloor>" by (rule max_absorb2)
  then show ?thesis using True by (simp only: Math_floor.simps Math_max_Fin if_True)
next
  case False
  then have "\<lfloor>b\<rfloor> < 0" by (simp add: floor_less_iff)
  then have "of_int \<lfloor>b\<rfloor> \<le> (0::real)" by linarith
  then have "max 0 (real_of_int \<lfloor>b\<rfloor>) = 0" by (rule max_absorb1)
  then show ?thesis using False by (simp only: Math_floor.simps Math_max_Fin if_False)
qed

lemma asNumber_Fin: "asNumber (Number (Fin a)) fb = Fin a"
  by (simp add: asNumber_def)

lemma asNumber_clamped:
  "\<exists>c. Math_min (Fin 100) (Math_max (Fin 0) (asNumber v (Fin 0))) = Fin c \<and> 0 \<le> c \<and> c \<le> 100"
proof -
  obtain a where "asNumber v (Fin 0) = Fin a"
    by (cases v; cases "toNumber v") (auto simp: asNumber_def)
  then show ?thesis by (simp add: Math_max_Fin Math_min_Fin)
qed

lemma is_null_nullish: "is_null (nullish v Null) = is_null v"
  by (cases v) simp_all

lemma toNumber_nullish: "\<not> is_null v \<Longrightarrow> toNumber (nullish v Null) = toNumber v"
  by (cases v) simp_all

section \<open>Facts about the admin draft calculator\<close>

lemma computeAnnualBase_nonneg:
  "\<exists>a. computeAnnualBase draft = Fin a \<and> 0 \<le> a"
proof -
  obtain b where b: "asNumber (base_price draft) (Fin 0) = Fin b"
    by (cases "base_price draft"; cases "toNumber (base_price draft)") (auto simp: asNumber_def)
  show ?thesis
    by (cases "0 \<le> b")
       (simp_all add: computeAnnualBase_def b max_zero_floor Let_def del: Math_floor.simps)
qed

lemma computeAutoPricePerYear_finite:
  "\<exists>a. computeAutoPricePerYear draft years = Fin a"
proof -
  obtain a where a: "computeAnnualBase draft = Fin a"
    using computeAnnualBase_nonneg by blast
  obtain c where c: "Math_min (Fin 100) (Math_max (Fin 0)
      (asNumber (case durations draft years of None \<Rightarrow> Undefined
                 | Some d \<Rightarrow> discount_percent d) (Fin 0))) = Fin c"
    using asNumber_clamped by blast
  show ?thesis
    by (simp add: computeAutoPricePerYear_def a c js_sub_def)
qed

section \<open>Facts about the discount map\<close>

lemma Map_get_set: "Map_get (Map_set k v m) k' = (if k' = k then Some v else Map_get m k')"
  by (induction m) auto

lemma Map_set_not_Nil: "Map_set k v m \<noteq> []"
  by (cases m) (auto split: if_splits)

lemma Map_size_pos_iff: "0 < Map_size m \<longleftrightarrow> m \<noteq> []"
  by (simp add: Map_size_def)

lemma step_Nil_iff: "discountByMonths_step r m = [] \<longleftrightarrow> m = [] \<and> \<not> row_in_effect r"
  by (auto simp: discountByMonths_step_def row_in_effect_def row_months_def Map_set_not_Nil Let_def)

lemma fold_step_Nil_iff:
  "fold discountByMonths_step rows m = [] \<longleftrightarrow> m = [] \<and> (\<forall>r \<in> set rows. \<not> row_in_effect r)"
  by (induction rows arbitrary: m) (auto simp: step_Nil_iff)

lemma discountByMonths_Nil_iff:
  "discountByMonths rows = [] \<longleftrightarrow> (\<forall>r \<in> set rows. \<not> row_in_effect r)"
  by (simp add: discountByMonths_def fold_step_Nil_iff)

lemma step_get_None_iff:
  "Map_get (discountByMonths_step r m) k = None \<longleftrightarrow>
     Map_get m k = None \<and> \<not> (row_in_effect r \<and> row_months r = k)"
  by (auto simp: discountByMonths_step_def row_in_effect_def row_months_def Map_get_set Let_def)

lemma fold_step_get_None_iff:
  "Map_get (fold discountByMonths_step rows m) k = None \<longleftrightarrow>
     Map_get m k = None \<and> (\<forall>r \<in> set rows. \<not> (row_in_effect r \<and> row_months r = k))"
  by (induction rows arbitrary: m) (auto simp: step_get_None_iff)

lemma discountByMonths_get_None_iff:
  "Map_get (discountByMonths rows) k = None \<longleftrightarrow>
     (\<forall>r \<in> set rows. \<not> (row_in_effect r \<and> row_months r = k))"
  by (simp add: discountByMonths_def fold_step_get_None_iff)

section \<open>Facts about the add-on total\<close>

lemma foldl_total_acc:
  "foldl (\<lambda>sum a. if \<not> selected_truthy selected (addon_id a) then sum
                   else js_add sum (toNumber (nullish (price_idr a) (Number (Fin 0)))))
         acc items
   = foldl js_add acc
       (map (\<lambda>a. toNumber (nullish (price_idr a) (Number (Fin 0))))
            (filter (\<lambda>a. selected_truthy selected (addon_id a)) items))"
  by (induction items arbitrary: acc) simp_all

lemma subscriptionAddOnsTotal_filter:
  "subscriptionAddOnsTotal items selected =
     foldl js_add (Fin 0)
       (map (\<lambda>a. toNumber (nullish (price_idr a) (Number (Fin 0))))
            (filter (\<lambda>a. selected_truthy selected (addon_id a)) items))"
  by (cases items) (simp_all add: subscriptionAddOnsTotal_def foldl_total_acc)

lemma selected_truthy_own_id:
  "k \<notin> set Object_prototype_keys \<Longrightarrow> selected_truthy (Some own) k = (own k = Some True)"
  by (cases "own k") (simp_all add: selected_truthy_def)

lemma subscriptionAddOnsTotal_own_ids:
  assumes "\<forall>a \<in> set items. addon_id a \<notin> set Object_prototype_keys"
  shows "subscriptionAddOnsTotal items (Some own) =
           foldl js_add (Fin 0)
             (map (\<lambda>a. toNumber (nullish (price_idr a) (Number (Fin 0))))
                  (filter (\<lambda>a. own (addon_id a) = Some True) items))"
proof -
  from assms
  have "filter (\<lambda>a. selected_truthy (Some own) (addon_id a)) items
          = filter (\<lambda>a. own (addon_id a) = Some True) items"
    by (intro filter_cong) (simp_all add: selected_truthy_own_id)
  then show ?thesis by (simp only: subscriptionAddOnsTotal_filter)
qed

section \<open>Annualization\<close>

text \<open>
  Claim C6. For every base price \<open>b \<ge> 0\<close>, \<open>computeAnnualBase\<close> returns
  \<open>floor b * 12\<close> when the base mode is monthly and \<open>floor b\<close> when it is yearly.
  A negative base price gives 0, and so does a base price that is \<open>undefined\<close>,
  \<open>null\<close>, NaN or an infinity.
\<close>

theorem computeAnnualBase_floor:
  "(0 \<le> b \<longrightarrow>
      computeAnnualBase (draft\<lparr>base_mode := monthly, base_price := Number (Fin b)\<rparr>)
        = Fin (of_int \<lfloor>b\<rfloor> * 12)
    \<and> computeAnnualBase (draft\<lparr>base_mode := yearly, base_price := Number (Fin b)\<rparr>)
        = Fin (of_int \<lfloor>b\<rfloor>))
   \<and> (b < 0 \<longrightarrow> computeAnnualBase (draft\<lparr>base_price := Number (Fin b)\<rparr>) = Fin 0)
   \<and> (v \<in> {Undefined, Null, Number NaN, Number PosInf, Number NegInf} \<longrightarrow>
        computeAnnualBase (draft\<lparr>base_price := v\<rparr>) = Fin 0)"
  using max_zero_floor [of b] max_zero_floor [of 0]
  by (auto simp: computeAnnualBase_def asNumber_def Let_def simp del: Math_floor.simps)

theorem computeAnnualBase_floor_witness:
  "(0::real) \<le> 5 / 2
   \<and> computeAnnualBase (sample_draft Null yearly Null
        \<lparr>base_mode := monthly, base_price := Number (Fin (5 / 2))\<rparr>) = Fin 24
   \<and> computeAnnualBase (sample_draft Null yearly Null
        \<lparr>base_mode := yearly, base_price := Number (Fin (5 / 2))\<rparr>) = Fin 2
   \<and> (- 3::real) < 0
   \<and> computeAnnualBase (sample_draft Null monthly Null\<lparr>base_price := Number (Fin (- 3))\<rparr>) = Fin 0
   \<and> Number NaN \<in> {Undefined, Null, Number NaN, Number PosInf, Number NegInf}
   \<and> computeAnnualBase (sample_draft Null monthly Null\<lparr>base_price := Number NaN\<rparr>) = Fin 0"
proof -
  have f: "\<lfloor>5 / 2 :: real\<rfloor> = 2" by simp
  show ?thesis
    using f computeAnnualBase_floor [of "5 / 2" "sample_draft Null yearly Null" "Number NaN"]
      computeAnnualBase_floor [of "- 3" "sample_draft Null monthly Null" "Number NaN"]
    by simp
qed

section \<open>The discount resolver of the draft calculator\<close>

text \<open>
  Claim C8. With an annual base of 1,200,000, a discount of 10 percent and a duration of
  2 years, the automatic price per year is 1,080,000 and the total for the duration is
  2,160,000.
\<close>

theorem scenario_A_totals:
  "computeAnnualBase (sample_draft (Number (Fin 1200000)) yearly (Number (Fin 10)))
     = Fin 1200000
   \<and> computeAutoPricePerYear (sample_draft (Number (Fin 1200000)) yearly (Number (Fin 10))) 2
     = Fin 1080000
   \<and> shownPricePerYear (sample_draft (Number (Fin 1200000)) yearly (Number (Fin 10))) 2
     = Some (Fin 1080000)
   \<and> totalForDuration (sample_draft (Number (Fin 1200000)) yearly (Number (Fin 10))) 2
     = Some (Fin 2160000)"
  by (simp add: admin_eval)

text \<open>
  Claim C7. For a duration that has an entry in the draft: switching the manual lock on
  while the manual price is unset stores the current automatic price per year as the
  manual price; switching the lock off stores \<open>null\<close> as the manual price; and while the
  entry is locked, the shown price per year is the manual price when that is a finite
  number and the automatic price otherwise, in particular when it is \<open>null\<close>.
\<close>

theorem manual_lock_snapshot:
  assumes d: "durations draft years = Some d"
  shows "(is_null (manual_price_per_year d) \<longrightarrow>
           onCheckedChange draft years True =
             Some (draft\<lparr>durations := (durations draft)(years \<mapsto>
               d\<lparr>is_manual_locked := True,
                  manual_price_per_year := Number (computeAutoPricePerYear draft years)\<rparr>)\<rparr>))
       \<and> onCheckedChange draft years False =
             Some (draft\<lparr>durations := (durations draft)(years \<mapsto>
               d\<lparr>is_manual_locked := False, manual_price_per_year := Null\<rparr>)\<rparr>)
       \<and> (is_manual_locked d \<longrightarrow>
             shownPricePerYear draft years =
               Some (case manual_price_per_year d of
                       Number (Fin m) \<Rightarrow> Fin m
                     | _ \<Rightarrow> computeAutoPricePerYear draft years))"
proof -
  obtain a where a: "computeAutoPricePerYear draft years = Fin a"
    using computeAutoPricePerYear_finite by blast
  have on: "is_null (manual_price_per_year d) \<longrightarrow>
           onCheckedChange draft years True =
             Some (draft\<lparr>durations := (durations draft)(years \<mapsto>
               d\<lparr>is_manual_locked := True,
                  manual_price_per_year := Number (computeAutoPricePerYear draft years)\<rparr>)\<rparr>)"
    by (cases "manual_price_per_year d") (simp_all add: onCheckedChange_def d a asNumber_Fin)
  have off: "onCheckedChange draft years False =
             Some (draft\<lparr>durations := (durations draft)(years \<mapsto>
               d\<lparr>is_manual_locked := False, manual_price_per_year := Null\<rparr>)\<rparr>)"
    by (simp add: onCheckedChange_def d)
  have shown: "is_manual_locked d \<longrightarrow>
             shownPricePerYear draft years =
               Some (case manual_price_per_year d of
                       Number (Fin m) \<Rightarrow> Fin m
                     | _ \<Rightarrow> computeAutoPricePerYear draft years)"
    by (cases "manual_price_per_year d"; cases "toNumber (manual_price_per_year d)")
       (simp_all add: shownPricePerYear_def d a asNumber_def)
  from on off shown show ?thesis by blast
qed

theorem manual_lock_snapshot_witness:
  "durations (sample_draft (Number (Fin 1200000)) yearly (Number (Fin 10))) 2
     = Some \<lparr>discount_percent = Number (Fin 10), manual_price_per_year = Null,
             is_manual_locked = False\<rparr>
   \<and> is_null Null
   \<and> onCheckedChange (sample_draft (Number (Fin 1200000)) yearly (Number (Fin 10))) 2 True
     = Some (sample_draft (Number (Fin 1200000)) yearly (Number (Fin 10))
          \<lparr>durations := [2 \<mapsto> \<lparr>discount_percent = Number (Fin 10),
                                 manual_price_per_year = Number (Fin 1080000),
                                 is_manual_locked = True\<rparr>]\<rparr>)
   \<and> is_manual_locked \<lparr>discount_percent = Number (Fin 10),
        manual_price_per_year = Number (Fin 990000), is_manual_locked = True\<rparr>
   \<and> shownPricePerYear (sample_draft (Number (Fin 1200000)) yearly (Number (Fin 10))
          \<lparr>durations := [2 \<mapsto> \<lparr>discount_percent = Number (Fin 10),
                                 manual_price_per_year = Number (Fin 990000),
                                 is_manual_locked = True\<rparr>]\<rparr>) 2
     = Some (Fin 990000)"
proof -
  let ?draft = "sample_draft (Number (Fin 1200000)) yearly (Number (Fin 10))"
  let ?locked = "\<lparr>discount_percent = Number (Fin 10),
        manual_price_per_year = Number (Fin 990000), is_manual_locked = True\<rparr>"
  have h: "durations ?draft 2
     = Some \<lparr>discount_percent = Number (Fin 10), manual_price_per_year = Null,
             is_manual_locked = False\<rparr>"
    by (simp add: sample_draft_def)
  have a: "computeAutoPricePerYear ?draft 2 = Fin 1080000" by (simp add: admin_eval)
  have u: "(durations ?draft)(2 \<mapsto> x) = [2 \<mapsto> x]" for x by (simp add: sample_draft_def)
  have on: "onCheckedChange ?draft 2 True
     = Some (?draft\<lparr>durations := [2 \<mapsto> \<lparr>discount_percent = Number (Fin 10),
                                 manual_price_per_year = Number (Fin 1080000),
                                 is_manual_locked = True\<rparr>]\<rparr>)"
    using h a u manual_lock_snapshot [OF h] by simp
  have h': "durations (?draft\<lparr>durations := [2 \<mapsto> ?locked]\<rparr>) 2 = Some ?locked" by simp
  have sh: "shownPricePerYear (?draft\<lparr>durations := [2 \<mapsto> ?locked]\<rparr>) 2 = Some (Fin 990000)"
    using manual_lock_snapshot [OF h'] by simp
  show ?thesis using h on sh by simp
qed

section \<open>The promo discount\<close>

text \<open>
  Claim C5. For every finite subtotal \<open>s\<close> and every finite promo discount \<open>d \<ge> 0\<close>,
  the total after the promo is \<open>max 0 (s - d)\<close>; the payable amount in whole rupiah is
  that total rounded, which is the same number when \<open>s - d\<close> is whole. Neither is ever
  negative, and both are 0 when the discount exceeds the subtotal.
\<close>

theorem promo_total_clamped:
  assumes "0 \<le> d"
  shows "totalAfterPromoUsd (Some (Fin s)) (Number (Fin d)) = Some (Fin (max 0 (s - d)))
       \<and> totalAfterPromoIdr (totalAfterPromoUsd (Some (Fin s)) (Number (Fin d)))
           = Some (Fin (of_int (round (max 0 (s - d)))))
       \<and> 0 \<le> round (max 0 (s - d))
       \<and> (s - d \<in> \<int> \<longrightarrow>
            totalAfterPromoIdr (totalAfterPromoUsd (Some (Fin s)) (Number (Fin d)))
              = Some (Fin (max 0 (s - d))))
       \<and> (s < d \<longrightarrow> totalAfterPromoUsd (Some (Fin s)) (Number (Fin d)) = Some (Fin 0)
                  \<and> totalAfterPromoIdr (totalAfterPromoUsd (Some (Fin s)) (Number (Fin d)))
                      = Some (Fin 0))"
proof -
  have usd: "totalAfterPromoUsd (Some (Fin s)) (Number (Fin d)) = Some (Fin (max 0 (s - d)))"
    using assms by (cases "d = 0") (simp_all add: totalAfterPromoUsd_def Math_max_Fin js_sub_def)
  have nn: "0 \<le> round (max 0 (s - d))"
    by (simp add: round_def)
  then have "(0::real) \<le> of_int (round (max 0 (s - d)))" by simp
  then have "max 0 (real_of_int (round (max 0 (s - d)))) = of_int (round (max 0 (s - d)))"
    by (rule max_absorb2)
  then have idr: "totalAfterPromoIdr (totalAfterPromoUsd (Some (Fin s)) (Number (Fin d)))
           = Some (Fin (of_int (round (max 0 (s - d)))))"
    by (simp add: usd totalAfterPromoIdr_def Math_max_Fin round_def del: of_int_add)
  have whole: "s - d \<in> \<int> \<Longrightarrow> real_of_int (round (max 0 (s - d))) = max 0 (s - d)"
  proof -
    assume "s - d \<in> \<int>"
    then have "max 0 (s - d) \<in> \<int>" by (simp add: max_def)
    then show ?thesis by (auto simp: Ints_def)
  qed
  have z: "s < d \<Longrightarrow> max 0 (s - d) = 0" by simp
  have zr: "s < d \<Longrightarrow> round (max 0 (s - d)) = 0" by (simp only: z round_0)
  show ?thesis
  proof (intro conjI impI)
    show "totalAfterPromoUsd (Some (Fin s)) (Number (Fin d)) = Some (Fin (max 0 (s - d)))"
      by (rule usd)
    show "totalAfterPromoIdr (totalAfterPromoUsd (Some (Fin s)) (Number (Fin d)))
           = Some (Fin (of_int (round (max 0 (s - d)))))"
      by (rule idr)
    show "0 \<le> round (max 0 (s - d))" by (rule nn)
    show "totalAfterPromoIdr (totalAfterPromoUsd (Some (Fin s)) (Number (Fin d)))
              = Some (Fin (max 0 (s - d)))" if "s - d \<in> \<int>"
      using whole [OF that] by (simp only: idr)
    show "totalAfterPromoUsd (Some (Fin s)) (Number (Fin d)) = Some (Fin 0)" if "s < d"
      using z [OF that] by (simp only: usd)
    show "totalAfterPromoIdr (totalAfterPromoUsd (Some (Fin s)) (Number (Fin d))) = Some (Fin 0)"
      if "s < d"
      using zr [OF that] by (simp only: idr of_int_0)
  qed
qed

theorem promo_total_clamped_witness:
  "(0::real) \<le> 30
   \<and> totalAfterPromoUsd (Some (Fin 100)) (Number (Fin 30)) = Some (Fin 70)
   \<and> totalAfterPromoIdr (totalAfterPromoUsd (Some (Fin 100)) (Number (Fin 30))) = Some (Fin 70)
   \<and> (10::real) < 30
   \<and> totalAfterPromoUsd (Some (Fin 10)) (Number (Fin 30)) = Some (Fin 0)
   \<and> totalAfterPromoIdr (totalAfterPromoUsd (Some (Fin 10)) (Number (Fin 30))) = Some (Fin 0)"
proof -
  have h: "(0::real) \<le> 30" by simp
  have r: "round (70::real) = 70" by simp
  show ?thesis
    using promo_total_clamped [OF h, of 100] promo_total_clamped [OF h, of 10] r
    by (simp add: totalAfterPromoIdr_def Math_max_def)
qed

section \<open>The total resolution chain of the checkout\<close>

text \<open>
  Claim C2. Whenever the checkout takes the duration-discount path (the discount map is
  not empty) or the raw base-price path (the map is empty and no plan gives a finite
  price), and the domain price or the package price is \<open>null\<close>, the total is \<open>null\<close>,
  never 0. In particular, with both prices \<open>null\<close>, no duration row and no plan for the
  requested years, the total is \<open>null\<close>.
\<close>

theorem baseTotalUsd_null_base_unavailable:
  "((is_null domainPriceUsd \<or> is_null packagePriceUsd) \<longrightarrow>
      (0 < Map_size m \<or> planOverrideUsd plans years = None) \<longrightarrow>
      baseTotalUsd cdt years m domainPriceUsd packagePriceUsd plans addOns = None
      \<and> baseTotalUsd cdt years m domainPriceUsd packagePriceUsd plans addOns \<noteq> Some (Fin 0))
   \<and> (selectedPlan plans years = None \<longrightarrow>
      baseTotalUsd cdt years (discountByMonths []) Null Null plans addOns = None)"
  by (auto simp: baseTotalUsd_def planOverrideUsd_def is_null_nullish discountByMonths_def
        Map_size_def Let_def)

theorem baseTotalUsd_null_base_unavailable_witness:
  "(is_null Null \<or> is_null (Number (Fin 20)))
   \<and> (0 < Map_size (discountByMonths [sample_row 12 10 None])
       \<or> planOverrideUsd [] (Number (Fin 1)) = None)
   \<and> baseTotalUsd computeDiscountedTotal (Number (Fin 1)) (discountByMonths [sample_row 12 10 None])
        Null (Number (Fin 20)) [] (Fin 0) = None
   \<and> selectedPlan [sample_plan 3 500 True] (Number (Fin 1)) = None
   \<and> baseTotalUsd computeDiscountedTotal (Number (Fin 1)) (discountByMonths []) Null Null
        [sample_plan 3 500 True] (Fin 0) = None"
proof -
  have h1: "is_null Null \<or> is_null (Number (Fin 20))" by simp
  have h2: "0 < Map_size (discountByMonths [sample_row 12 10 None])
       \<or> planOverrideUsd [] (Number (Fin 1)) = None"
    by (simp add: checkout_eval)
  have h3: "selectedPlan [sample_plan 3 500 True] (Number (Fin 1)) = None"
    by (simp add: checkout_eval)
  show ?thesis
    using h1 h2 h3
      baseTotalUsd_null_base_unavailable
        [where domainPriceUsd = Null and packagePriceUsd = "Number (Fin 20)"
           and m = "discountByMonths [sample_row 12 10 None]" and plans = "[]"
           and years = "Number (Fin 1)" and cdt = computeDiscountedTotal and addOns = "Fin 0"]
      baseTotalUsd_null_base_unavailable
        [where domainPriceUsd = Null and packagePriceUsd = Null and m = "[]"
           and plans = "[sample_plan 3 500 True]" and years = "Number (Fin 1)"
           and cdt = computeDiscountedTotal and addOns = "Fin 0"]
    by blast
qed

text \<open>
  Claim C9. The plan lookup takes the first plan whose years equal the requested years and
  does not read its \<open>is_active\<close> flag: with an empty discount map, a plan flagged inactive
  with a finite price decides the total, which is that price plus the add-ons total.
\<close>

theorem legacy_plan_ignores_is_active:
  assumes "truthy years"
    and "\<forall>q \<in> set pre. \<not> js_eq (toNumber (plan_years q)) (toNumber years)"
    and "js_eq (toNumber (plan_years p)) (toNumber years)"
    and "price_usd p = Number (Fin v)"
  shows "selectedPlan (pre @ p\<lparr>plan_is_active := False\<rparr> # post) years
           = Some (p\<lparr>plan_is_active := False\<rparr>)
       \<and> baseTotalUsd cdt years [] domainPriceUsd packagePriceUsd
            (pre @ p\<lparr>plan_is_active := False\<rparr> # post) addOns = Some (js_add (Fin v) addOns)"
proof -
  have sel: "selectedPlan (pre @ p\<lparr>plan_is_active := False\<rparr> # post) years
           = Some (p\<lparr>plan_is_active := False\<rparr>)"
    using assms(2,3) by (induction pre) (simp_all add: selectedPlan_def)
  then show ?thesis using assms(1,4)
    by (simp add: baseTotalUsd_def planOverrideUsd_def Map_size_def)
qed

theorem legacy_plan_ignores_is_active_witness:
  "truthy (Number (Fin 3))
   \<and> \<not> js_eq (toNumber (plan_years (sample_plan 1 100 True))) (toNumber (Number (Fin 3)))
   \<and> js_eq (toNumber (plan_years (sample_plan 3 500 True))) (toNumber (Number (Fin 3)))
   \<and> price_usd (sample_plan 3 500 True) = Number (Fin 500)
   \<and> baseTotalUsd computeDiscountedTotal (Number (Fin 3)) [] (Number (Fin 100)) (Number (Fin 20))
        ([sample_plan 1 100 True] @ sample_plan 3 500 True\<lparr>plan_is_active := False\<rparr>
           # [sample_plan 3 900 True]) (Fin 50) = Some (Fin 550)"
proof -
  have h1: "truthy (Number (Fin 3))" by simp
  have h2: "\<forall>q \<in> set [sample_plan 1 100 True].
         \<not> js_eq (toNumber (plan_years q)) (toNumber (Number (Fin 3)))"
    by (simp add: sample_plan_def js_eq_def)
  have h3: "js_eq (toNumber (plan_years (sample_plan 3 500 True))) (toNumber (Number (Fin 3)))"
    by (simp add: sample_plan_def js_eq_def)
  have h4: "price_usd (sample_plan 3 500 True) = Number (Fin 500)" by (simp add: sample_plan_def)
  have c: "js_add (Fin 500) (Fin 50) = Fin 550" by simp
  show ?thesis
    using h1 h2 h3 h4 c
      legacy_plan_ignores_is_active [OF h1 h2 h3 h4, where cdt = computeDiscountedTotal
            and post = "[sample_plan 3 900 True]" and domainPriceUsd = "Number (Fin 100)"
            and packagePriceUsd = "Number (Fin 20)" and addOns = "Fin 50"]
    by simp
qed

text \<open>
  Claim C1, as amended. When the duration rows contain a row for the requested duration
  that is in effect (not flagged inactive, with the positive month count \<open>y * 12\<close> for
  the requested years \<open>y\<close>), the total is decided by the discount map, the base prices
  and the add-ons total alone: it is \<open>null\<close> when a base price is \<open>null\<close>, and otherwise
  the discounted total of the base prices plus the add-ons total, whatever the legacy
  plans are.
\<close>

theorem baseTotalUsd_ignores_legacy_plans:
  assumes "r \<in> set rows" and "row_is_active r \<noteq> Some False"
    and "0 < y" and "duration_months r = Number (Fin (y * 12))"
  shows "\<exists>d. Map_get (discountByMonths rows) (Fin (y * 12)) = Some d \<and>
           (\<forall>plans. baseTotalUsd cdt (Number (Fin y)) (discountByMonths rows)
                      domainPriceUsd packagePriceUsd plans addOns =
              (if is_null domainPriceUsd \<or> is_null packagePriceUsd then None
               else Some (js_add (cdt (js_div (js_add (toNumber domainPriceUsd)
                                                 (toNumber packagePriceUsd)) (Fin 12))
                                   (Fin (y * 12)) d) addOns)))"
proof -
  have eff: "row_in_effect r \<and> row_months r = Fin (y * 12)"
    using assms by (simp add: row_in_effect_def row_months_def)
  with assms(1) have "Map_get (discountByMonths rows) (Fin (y * 12)) \<noteq> None"
    by (auto simp: discountByMonths_get_None_iff)
  then obtain d where d: "Map_get (discountByMonths rows) (Fin (y * 12)) = Some d" by blast
  from eff assms(1) have ne: "discountByMonths rows \<noteq> []"
    by (auto simp: discountByMonths_Nil_iff)
  show ?thesis using d ne assms(3)
    by (simp add: baseTotalUsd_def Map_size_pos_iff is_null_nullish toNumber_nullish Let_def)
qed

theorem baseTotalUsd_ignores_legacy_plans_witness:
  "sample_row 12 10 None \<in> set [sample_row 24 20 None, sample_row 12 10 None]
   \<and> row_is_active (sample_row 12 10 None) \<noteq> Some False
   \<and> (0::real) < 1
   \<and> duration_months (sample_row 12 10 None) = Number (Fin (1 * 12))
   \<and> baseTotalUsd computeDiscountedTotal (Number (Fin 1))
        (discountByMonths [sample_row 24 20 None, sample_row 12 10 None])
        (Number (Fin 100)) (Number (Fin 20)) [sample_plan 1 500 True] (Fin 7) = Some (Fin 115)
   \<and> baseTotalUsd computeDiscountedTotal (Number (Fin 1))
        (discountByMonths [sample_row 24 20 None, sample_row 12 10 None])
        (Number (Fin 100)) (Number (Fin 20)) [] (Fin 7) = Some (Fin 115)"
proof -
  have h1: "sample_row 12 10 None \<in> set [sample_row 24 20 None, sample_row 12 10 None]" by simp
  have h2: "row_is_active (sample_row 12 10 None) \<noteq> Some False" by (simp add: sample_row_def)
  have h3: "(0::real) < 1" by simp
  have h4: "duration_months (sample_row 12 10 None) = Number (Fin (1 * 12))"
    by (simp add: sample_row_def)
  have g: "Map_get (discountByMonths [sample_row 24 20 None, sample_row 12 10 None]) (Fin (1 * 12))
            = Some (Fin 10)"
    by (simp add: checkout_eval)
  have c: "js_add (computeDiscountedTotal (js_div (js_add (Fin 100) (Fin 20)) (Fin 12))
              (Fin (1 * 12)) (Fin 10)) (Fin 7) = Fin 115"
    by (simp add: checkout_eval)
  from baseTotalUsd_ignores_legacy_plans [OF h1 h2 h3 h4, where cdt = computeDiscountedTotal
      and domainPriceUsd = "Number (Fin 100)" and packagePriceUsd = "Number (Fin 20)"
      and addOns = "Fin 7"]
  have "\<forall>plans. baseTotalUsd computeDiscountedTotal (Number (Fin 1))
        (discountByMonths [sample_row 24 20 None, sample_row 12 10 None])
        (Number (Fin 100)) (Number (Fin 20)) plans (Fin 7) = Some (Fin 115)"
    using g c by simp
  then show ?thesis using h1 h2 h3 h4 by blast
qed

text \<open>
  The claim as first stated fails on a row that is flagged inactive: the loop skips it,
  the discount map stays empty, and the legacy plan decides the total. Here the table has
  a row for 12 months, the request is for 1 year, and the total follows the plan price.
\<close>

theorem inactive_row_leaves_plan_in_charge:
  "baseTotalUsd computeDiscountedTotal (Number (Fin 1))
     (discountByMonths [sample_row 12 10 (Some False)])
     (Number (Fin 100)) (Number (Fin 20)) [sample_plan 1 500 True] (Fin 0) = Some (Fin 500)
   \<and> baseTotalUsd computeDiscountedTotal (Number (Fin 1))
     (discountByMonths [sample_row 12 10 (Some False)])
     (Number (Fin 100)) (Number (Fin 20)) [sample_plan 1 600 True] (Fin 0) = Some (Fin 600)"
  by (simp add: checkout_eval)

text \<open>
  Claim C4, as amended. For a request with a number of years, the duration-discount path
  is taken exactly when the duration rows contain at least one row in effect (not flagged
  inactive, with a finite positive month count). Then the total is \<open>null\<close> or the
  discounted total of the base prices plus the add-ons total, and the legacy plans and the
  raw base-price formula are not used; when no row in effect has the requested month
  count, the discount percent is 0. With no row in effect, the plan price decides, and
  the raw base price where no plan gives a finite price.
\<close>

theorem duration_path_iff_row_in_effect:
  assumes "truthy years"
  shows "((\<exists>r \<in> set rows. row_in_effect r) \<longrightarrow>
            baseTotalUsd cdt years (discountByMonths rows) domainPriceUsd packagePriceUsd
              plans addOns =
            (if is_null domainPriceUsd \<or> is_null packagePriceUsd then None
             else Some (js_add
                    (cdt (js_div (js_add (toNumber domainPriceUsd) (toNumber packagePriceUsd))
                            (Fin 12))
                       (js_mul (toNumber years) (Fin 12))
                       (case Map_get (discountByMonths rows) (js_mul (toNumber years) (Fin 12))
                        of None \<Rightarrow> Fin 0 | Some d \<Rightarrow> d))
                    addOns)))
       \<and> ((\<exists>r \<in> set rows. row_in_effect r) \<longrightarrow>
          (\<forall>r \<in> set rows. \<not> (row_in_effect r \<and> row_months r = js_mul (toNumber years) (Fin 12)))
            \<longrightarrow>
            baseTotalUsd cdt years (discountByMonths rows) domainPriceUsd packagePriceUsd
              plans addOns =
            (if is_null domainPriceUsd \<or> is_null packagePriceUsd then None
             else Some (js_add
                    (cdt (js_div (js_add (toNumber domainPriceUsd) (toNumber packagePriceUsd))
                            (Fin 12))
                       (js_mul (toNumber years) (Fin 12)) (Fin 0))
                    addOns)))
       \<and> (\<not> (\<exists>r \<in> set rows. row_in_effect r) \<longrightarrow>
            baseTotalUsd cdt years (discountByMonths rows) domainPriceUsd packagePriceUsd
              plans addOns =
            (case planOverrideUsd plans years of
               Some v \<Rightarrow> Some (js_add v addOns)
             | None \<Rightarrow>
                 if is_null domainPriceUsd \<or> is_null packagePriceUsd then None
                 else Some (js_add (js_mul (js_add (toNumber domainPriceUsd)
                                              (toNumber packagePriceUsd)) (toNumber years))
                              addOns)))"
proof -
  let ?months = "js_mul (toNumber years) (Fin 12)"
  let ?path1 = "\<lambda>d. if is_null domainPriceUsd \<or> is_null packagePriceUsd then None
             else Some (js_add
                    (cdt (js_div (js_add (toNumber domainPriceUsd) (toNumber packagePriceUsd))
                            (Fin 12)) ?months d)
                    addOns)"
  let ?total = "baseTotalUsd cdt years (discountByMonths rows) domainPriceUsd packagePriceUsd
              plans addOns"
  have p1: "?total = ?path1 (case Map_get (discountByMonths rows) ?months
                             of None \<Rightarrow> Fin 0 | Some d \<Rightarrow> d)"
    if "\<exists>r \<in> set rows. row_in_effect r"
  proof -
    from that have "discountByMonths rows \<noteq> []" by (simp add: discountByMonths_Nil_iff)
    then show ?thesis using assms
      by (simp add: baseTotalUsd_def Map_size_pos_iff is_null_nullish toNumber_nullish Let_def)
  qed
  have p2: "?total = ?path1 (Fin 0)"
    if "\<exists>r \<in> set rows. row_in_effect r"
      and "\<forall>r \<in> set rows. \<not> (row_in_effect r \<and> row_months r = ?months)"
  proof -
    from that(2) have "Map_get (discountByMonths rows) ?months = None"
      by (simp add: discountByMonths_get_None_iff)
    with p1 [OF that(1)] show ?thesis by simp
  qed
  have p3: "?total =
            (case planOverrideUsd plans years of
               Some v \<Rightarrow> Some (js_add v addOns)
             | None \<Rightarrow>
                 if is_null domainPriceUsd \<or> is_null packagePriceUsd then None
                 else Some (js_add (js_mul (js_add (toNumber domainPriceUsd)
                                              (toNumber packagePriceUsd)) (toNumber years))
                              addOns))"
    if "\<not> (\<exists>r \<in> set rows. row_in_effect r)"
  proof -
    from that have "discountByMonths rows = []" by (simp add: discountByMonths_Nil_iff)
    then show ?thesis using assms
      by (simp add: baseTotalUsd_def Map_size_def is_null_nullish toNumber_nullish Let_def
               split: option.splits)
  qed
  from p1 p2 p3 show ?thesis by blast
qed

theorem duration_path_iff_row_in_effect_witness:
  "truthy (Number (Fin 1))
   \<and> (\<exists>r \<in> set [sample_row 24 10 None]. row_in_effect r)
   \<and> \<not> (row_in_effect (sample_row 24 10 None)
          \<and> row_months (sample_row 24 10 None) = js_mul (toNumber (Number (Fin 1))) (Fin 12))
   \<and> baseTotalUsd computeDiscountedTotal (Number (Fin 1)) (discountByMonths [sample_row 24 10 None])
        (Number (Fin 100)) (Number (Fin 20)) [sample_plan 1 500 True] (Fin 7) = Some (Fin 127)
   \<and> \<not> (\<exists>r \<in> set [sample_row 24 10 (Some False)]. row_in_effect r)
   \<and> baseTotalUsd computeDiscountedTotal (Number (Fin 1))
        (discountByMonths [sample_row 24 10 (Some False)])
        (Number (Fin 100)) (Number (Fin 20)) [sample_plan 1 500 True] (Fin 7) = Some (Fin 507)"
proof -
  have t: "truthy (Number (Fin 1))" by simp
  have h1: "\<exists>r \<in> set [sample_row 24 10 None]. row_in_effect r"
    by (simp add: row_in_effect_def row_months_def sample_row_def)
  have h2: "\<forall>r \<in> set [sample_row 24 10 None].
         \<not> (row_in_effect r \<and> row_months r = js_mul (toNumber (Number (Fin 1))) (Fin 12))"
    by (simp add: row_in_effect_def row_months_def sample_row_def)
  have h3: "\<not> (\<exists>r \<in> set [sample_row 24 10 (Some False)]. row_in_effect r)"
    by (simp add: row_in_effect_def row_months_def sample_row_def)
  note c1 = duration_path_iff_row_in_effect [OF t, where rows = "[sample_row 24 10 None]"
            and cdt = computeDiscountedTotal and domainPriceUsd = "Number (Fin 100)"
            and packagePriceUsd = "Number (Fin 20)" and plans = "[sample_plan 1 500 True]"
            and addOns = "Fin 7"]
  from c1 h1 h2
  have "baseTotalUsd computeDiscountedTotal (Number (Fin 1)) (discountByMonths [sample_row 24 10 None])
        (Number (Fin 100)) (Number (Fin 20)) [sample_plan 1 500 True] (Fin 7) =
        (if is_null (Number (Fin 100)) \<or> is_null (Number (Fin 20)) then None
         else Some (js_add
                (computeDiscountedTotal
                   (js_div (js_add (toNumber (Number (Fin 100))) (toNumber (Number (Fin 20))))
                      (Fin 12))
                   (js_mul (toNumber (Number (Fin 1))) (Fin 12)) (Fin 0))
                (Fin 7)))"
    by blast
  then have a: "baseTotalUsd computeDiscountedTotal (Number (Fin 1))
        (discountByMonths [sample_row 24 10 None])
        (Number (Fin 100)) (Number (Fin 20)) [sample_plan 1 500 True] (Fin 7) = Some (Fin 127)"
    by (simp add: computeDiscountedTotal_def Math_max_def Math_min_def js_sub_def)
  note c2 = duration_path_iff_row_in_effect [OF t, where rows = "[sample_row 24 10 (Some False)]"
            and cdt = computeDiscountedTotal and domainPriceUsd = "Number (Fin 100)"
            and packagePriceUsd = "Number (Fin 20)" and plans = "[sample_plan 1 500 True]"
            and addOns = "Fin 7"]
  from c2 h3
  have "baseTotalUsd computeDiscountedTotal (Number (Fin 1))
        (discountByMonths [sample_row 24 10 (Some False)])
        (Number (Fin 100)) (Number (Fin 20)) [sample_plan 1 500 True] (Fin 7) =
        (case planOverrideUsd [sample_plan 1 500 True] (Number (Fin 1)) of
           Some v \<Rightarrow> Some (js_add v (Fin 7))
         | None \<Rightarrow>
             if is_null (Number (Fin 100)) \<or> is_null (Number (Fin 20)) then None
             else Some (js_add (js_mul (js_add (toNumber (Number (Fin 100)))
                                          (toNumber (Number (Fin 20))))
                                  (toNumber (Number (Fin 1))))
                          (Fin 7)))"
    by blast
  then have b: "baseTotalUsd computeDiscountedTotal (Number (Fin 1))
        (discountByMonths [sample_row 24 10 (Some False)])
        (Number (Fin 100)) (Number (Fin 20)) [sample_plan 1 500 True] (Fin 7) = Some (Fin 507)"
    by (simp add: planOverrideUsd_def selectedPlan_def sample_plan_def js_eq_def)
  from h2 have h2': "\<not> (row_in_effect (sample_row 24 10 None)
          \<and> row_months (sample_row 24 10 None) = js_mul (toNumber (Number (Fin 1))) (Fin 12))"
    by simp
  show ?thesis using t h1 h2' h3 a b by blast
qed

text \<open>
  The claim as first stated fails on a table whose rows are all flagged inactive: the
  table is not empty, yet the discount map is, and the legacy plan decides. With both base
  prices \<open>null\<close> the duration-discount path would give \<open>null\<close>; the total is the plan
  price.
\<close>

theorem inactive_table_uses_legacy_plan:
  "baseTotalUsd computeDiscountedTotal (Number (Fin 2))
     (discountByMonths [sample_row 24 10 (Some False), sample_row 12 5 (Some False)])
     Null Null [sample_plan 2 900 True] (Fin 0) = Some (Fin 900)"
  by (simp add: checkout_eval)

section \<open>The add-on aggregator\<close>


end
